theory Spec2Isabelle
  imports Main "HOL-Library.Sublist"
begin

section \<open>The module \<open>openshift-ai/config.py\<close>\<close>

text \<open>
  The module defines a namespace literal, nine URL constants (eight built from the
  namespace by f-strings, one written out), and the routine \<open>configure_environment\<close>,
  which stores eight of them in \<open>os.environ\<close> and prints six lines. The last statement
  of the module calls the routine.

  Strings are byte strings (\<open>string\<close>): every string of the module is ASCII apart from the
  check mark U+2713 of the first printed line, which appears as its three UTF-8 bytes.
\<close>

subsection \<open>The constants\<close>

definition NAMESPACE :: string where
  "NAMESPACE = ''hacohen-flywheel''"

text \<open>An f-string \<open>f"a{NAMESPACE}b"\<close> is the concatenation of its literal parts and the
  value of the name.\<close>

definition API_BASE_URL :: string where
  "API_BASE_URL = ''http://df-api-service.'' @ NAMESPACE @ ''.svc.cluster.local:8000''"

definition ELASTICSEARCH_URL :: string where
  "ELASTICSEARCH_URL = ''http://elasticsearch-master.'' @ NAMESPACE @ ''.svc.cluster.local:9200''"

definition MONGODB_URL :: string where
  "MONGODB_URL = ''mongodb://flywheel-infra-mongodb.'' @ NAMESPACE @ ''.svc.cluster.local:27017''"

definition REDIS_URL :: string where
  "REDIS_URL = ''redis://flywheel-infra-redis-master.'' @ NAMESPACE @ ''.svc.cluster.local:6379/0''"

definition MLFLOW_TRACKING_URI :: string where
  "MLFLOW_TRACKING_URI = ''http://df-mlflow-service.'' @ NAMESPACE @ ''.svc.cluster.local:5000''"

definition NEMO_BASE_URL :: string where
  "NEMO_BASE_URL = ''http://nemo-gateway.'' @ NAMESPACE @ ''.svc.cluster.local''"

definition NIM_BASE_URL :: string where
  "NIM_BASE_URL = ''http://nemo-gateway.'' @ NAMESPACE @ ''.svc.cluster.local''"

definition DATASTORE_BASE_URL :: string where
  "DATASTORE_BASE_URL = ''http://nemodatastore-sample.'' @ NAMESPACE @ ''.svc.cluster.local:8000''"

definition NIM_EXTERNAL_URL :: string where
  "NIM_EXTERNAL_URL =
     ''http://nemo-gateway-hacohen-flywheel.apps.ai-dev05.kni.syseng.devcluster.openshift.com''"

subsection \<open>The process state\<close>

text \<open>
  What the routine touches: the environment block behind \<open>os.environ\<close>, a dictionary
  from names to values, and \<open>sys.stdout\<close>.

  \<open>sys.stdout\<close> is \<open>None\<close> when the interpreter was started without a standard output,
  and a text stream otherwise. A text stream has an encoding, an error handler, and may
  have been closed. Of the encodings, UTF-8 takes every text; Latin-1 takes the code
  points below 256, whose UTF-8 bytes are all below \<open>0xC4\<close>; ASCII takes the code points
  below 128, which are the bytes below \<open>0x80\<close>. Of the error handlers, \<open>Strict\<close> stands
  for those that raise on a character outside the encoding (\<open>strict\<close>, and
  \<open>surrogateescape\<close> for any character that is not a lone surrogate), \<open>Replace\<close> for those
  that substitute it (\<open>replace\<close>, \<open>backslashreplace\<close>, \<open>ignore\<close>,
  \<open>xmlcharrefreplace\<close>, \<open>namereplace\<close>). \<open>written\<close> is the text handed to the stream so
  far, and the device behind an open stream takes whatever is written to it.
\<close>

datatype encoding = UTF8 | Latin1 | ASCII

datatype error_handler = Strict | Replace

record stream =
  encoding :: encoding
  errors :: error_handler
  closed :: bool
  written :: string

record process =
  environ :: "string \<rightharpoonup> string"
  stdout :: "stream option"

text \<open>
  An exception leaves the process in the state it had when the exception was raised, so
  a statement yields either the next state, or an exception together with the state.
\<close>

datatype error =
    ValueError_embedded_null_byte
  | ValueError_illegal_name
  | OSError_invalid_argument
  | ValueError_closed_file
  | UnicodeEncodeError

type_synonym outcome = "(error \<times> process) + process"

fun state_after :: "outcome \<Rightarrow> process" where
  "state_after (Inl (e, p)) = p"
| "state_after (Inr p) = p"

text \<open>
  \<open>os.environ[key] = value\<close> for a \<open>str\<close> key and value raises \<open>ValueError\<close> ("embedded
  null byte") when the key or the value holds a zero byte, \<open>ValueError\<close> ("illegal
  environment variable name") when the key holds an equals sign, and \<open>OSError\<close> (invalid
  argument, from \<open>setenv\<close>) when the key is empty. Otherwise the entry is stored,
  replacing an earlier one of the same name.
\<close>

definition environ_setitem :: "string \<Rightarrow> string \<Rightarrow> process \<Rightarrow> outcome" where
  "environ_setitem key val p =
     (if CHR 0x00 \<in> set key \<or> CHR 0x00 \<in> set val then Inl (ValueError_embedded_null_byte, p)
      else if CHR ''='' \<in> set key then Inl (ValueError_illegal_name, p)
      else if key = [] then Inl (OSError_invalid_argument, p)
      else Inr (p\<lparr>environ := (environ p)(key \<mapsto> val)\<rparr>))"

fun encodable :: "encoding \<Rightarrow> string \<Rightarrow> bool" where
  "encodable UTF8 s = True"
| "encodable Latin1 s = list_all (\<lambda>c. (of_char c :: nat) < 0xC4) s"
| "encodable ASCII s = list_all (\<lambda>c. (of_char c :: nat) < 0x80) s"

text \<open>
  \<open>print(s)\<close> does nothing when \<open>sys.stdout\<close> is \<open>None\<close>. On a closed stream it raises
  \<open>ValueError\<close> ("I/O operation on closed file"); on an open stream whose handler raises
  and whose encoding lacks a character of the text it raises \<open>UnicodeEncodeError\<close>, and
  nothing of the text is written. Otherwise the text and a newline are written.
\<close>

definition print :: "string \<Rightarrow> process \<Rightarrow> outcome" where
  "print s p =
     (case stdout p of
        None \<Rightarrow> Inr p
      | Some st \<Rightarrow>
          if closed st then Inl (ValueError_closed_file, p)
          else if errors st = Strict \<and> \<not> encodable (encoding st) s
            then Inl (UnicodeEncodeError, p)
          else Inr (p\<lparr>stdout := Some (st\<lparr>written := written st @ s @ [CHR 0x0A]\<rparr>)\<rparr>))"

text \<open>Statements in sequence: an exception ends the routine at the statement that raised it.\<close>

fun and_then :: "outcome \<Rightarrow> (process \<Rightarrow> outcome) \<Rightarrow> outcome" where
  "and_then (Inl x) f = Inl x"
| "and_then (Inr p) f = f p"

subsection \<open>The routine\<close>

definition check_mark :: string where
  "check_mark = [CHR 0xE2, CHR 0x9C, CHR 0x93]"

definition configure_environment :: "process \<Rightarrow> outcome" where
  "configure_environment p0 =
     and_then (environ_setitem ''API_BASE_URL'' API_BASE_URL p0) (\<lambda>p1.
     and_then (environ_setitem ''ELASTICSEARCH_URL'' ELASTICSEARCH_URL p1) (\<lambda>p2.
     and_then (environ_setitem ''MONGODB_URL'' MONGODB_URL p2) (\<lambda>p3.
     and_then (environ_setitem ''REDIS_URL'' REDIS_URL p3) (\<lambda>p4.
     and_then (environ_setitem ''MLFLOW_TRACKING_URI'' MLFLOW_TRACKING_URI p4) (\<lambda>p5.
     and_then (environ_setitem ''NEMO_BASE_URL'' NEMO_BASE_URL p5) (\<lambda>p6.
     and_then (environ_setitem ''NIM_BASE_URL'' NIM_BASE_URL p6) (\<lambda>p7.
     and_then (environ_setitem ''DATASTORE_BASE_URL'' DATASTORE_BASE_URL p7) (\<lambda>p8.
     and_then (print (check_mark @ '' OpenShift AI environment configured'') p8) (\<lambda>p9.
     and_then (print (''  Namespace: '' @ NAMESPACE) p9) (\<lambda>p10.
     and_then (print (''  API URL: '' @ API_BASE_URL) p10) (\<lambda>p11.
     and_then (print (''  Elasticsearch: '' @ ELASTICSEARCH_URL) p11) (\<lambda>p12.
     and_then (print (''  MLflow: '' @ MLFLOW_TRACKING_URI) p12) (\<lambda>p13.
     print (''  NeMo Gateway: '' @ NEMO_BASE_URL) p13)))))))))))))"

text \<open>The module body: the constants are bound, the routine is defined, and the last
  statement calls it.\<close>

definition module_init :: "process \<Rightarrow> outcome" where
  "module_init p = configure_environment p"

subsection \<open>What the routine leaves behind\<close>

definition exported :: "string \<rightharpoonup> string" where
  "exported =
     [''API_BASE_URL'' \<mapsto> API_BASE_URL,
      ''ELASTICSEARCH_URL'' \<mapsto> ELASTICSEARCH_URL,
      ''MONGODB_URL'' \<mapsto> MONGODB_URL,
      ''REDIS_URL'' \<mapsto> REDIS_URL,
      ''MLFLOW_TRACKING_URI'' \<mapsto> MLFLOW_TRACKING_URI,
      ''NEMO_BASE_URL'' \<mapsto> NEMO_BASE_URL,
      ''NIM_BASE_URL'' \<mapsto> NIM_BASE_URL,
      ''DATASTORE_BASE_URL'' \<mapsto> DATASTORE_BASE_URL]"

definition confirmation :: string where
  "confirmation =
     check_mark @ '' OpenShift AI environment configured'' @ [CHR 0x0A] @
     ''  Namespace: '' @ NAMESPACE @ [CHR 0x0A] @
     ''  API URL: '' @ API_BASE_URL @ [CHR 0x0A] @
     ''  Elasticsearch: '' @ ELASTICSEARCH_URL @ [CHR 0x0A] @
     ''  MLflow: '' @ MLFLOW_TRACKING_URI @ [CHR 0x0A] @
     ''  NeMo Gateway: '' @ NEMO_BASE_URL @ [CHR 0x0A]"

definition exported_names :: "string list" where
  "exported_names =
     [''API_BASE_URL'', ''ELASTICSEARCH_URL'', ''MONGODB_URL'', ''REDIS_URL'',
      ''MLFLOW_TRACKING_URI'', ''NEMO_BASE_URL'', ''NIM_BASE_URL'', ''DATASTORE_BASE_URL'']"

text \<open>Standard output takes a text when it is absent, or open and able to encode the
  text or to substitute what it cannot encode.\<close>

definition stdout_takes :: "process \<Rightarrow> string \<Rightarrow> bool" where
  "stdout_takes p s =
     (case stdout p of
        None \<Rightarrow> True
      | Some st \<Rightarrow> \<not> closed st \<and> (errors st = Replace \<or> encodable (encoding st) s))"

text \<open>The state the routine leaves when it runs to its end.\<close>

definition configured :: "process \<Rightarrow> process" where
  "configured p =
     p\<lparr>environ := environ p ++ exported,
       stdout := map_option (\<lambda>st. st\<lparr>written := written st @ confirmation\<rparr>) (stdout p)\<rparr>"

text \<open>Three processes: one whose standard output is an open UTF-8 stream, one started
  with \<open>PYTHONIOENCODING=ascii\<close>, and one whose standard output has been closed.\<close>

definition utf8_process :: process where
  "utf8_process =
     \<lparr>environ = [''HOME'' \<mapsto> ''/root''],
      stdout = Some \<lparr>encoding = UTF8, errors = Strict, closed = False, written = []\<rparr>\<rparr>"



subsection \<open>The documented URL template\<close>

text \<open>
  The specification gives the form of every value as
  \<^verbatim>\<open><scheme>://<service-host>.<namespace>.svc.cluster.local:<port>[/<path>]\<close>.
  \<open>url_template\<close> writes a string of that form from its parts; the optional path is a
  string that is empty or starts with a slash.
\<close>

definition url_template :: "string \<Rightarrow> string \<Rightarrow> string \<Rightarrow> string \<Rightarrow> string \<Rightarrow> string" where
  "url_template sch host ns prt pth =
     sch @ ''://'' @ host @ ''.'' @ ns @ ''.svc.cluster.local:'' @ prt @ pth"

text \<open>The same form with the port left out.\<close>

definition url_template_no_port :: "string \<Rightarrow> string \<Rightarrow> string \<Rightarrow> string \<Rightarrow> string" where
  "url_template_no_port sch host ns pth =
     sch @ ''://'' @ host @ ''.'' @ ns @ ''.svc.cluster.local'' @ pth"

text \<open>
  Reading a URL back into its parts: the scheme ends at the first \<open>://\<close>, the authority at
  the first slash after it, and inside the authority the hostname ends at the first colon;
  what follows that colon is the port.
\<close>

record url_parts =
  scheme :: string
  hostname :: string
  port :: "string option"
  path :: string

fun split_scheme :: "string \<Rightarrow> (string \<times> string) option" where
  "split_scheme [] = None"
| "split_scheme (c # cs) =
     (if take 3 (c # cs) = ''://'' then Some ([], drop 3 (c # cs))
      else case split_scheme cs of None \<Rightarrow> None | Some (s, r) \<Rightarrow> Some (c # s, r))"

definition parse_url :: "string \<Rightarrow> url_parts option" where
  "parse_url u =
     (case split_scheme u of
        None \<Rightarrow> None
      | Some (s, r) \<Rightarrow>
          let authority = takeWhile (\<lambda>c. c \<noteq> CHR ''/'') r;
              h = takeWhile (\<lambda>c. c \<noteq> CHR '':'') authority;
              t = dropWhile (\<lambda>c. c \<noteq> CHR '':'') authority
          in Some \<lparr>scheme = s, hostname = h,
                   port = (if t = [] then None else Some (tl t)),
                   path = dropWhile (\<lambda>c. c \<noteq> CHR ''/'') r\<rparr>)"

definition is_digit :: "char \<Rightarrow> bool" where
  "is_digit c = (c \<in> set ''0123456789'')"

text \<open>A hostname is qualified by the namespace when it is a non-empty service host
  followed by \<open>.<namespace>.svc.cluster.local\<close>.\<close>

definition in_namespace :: "string \<Rightarrow> string \<Rightarrow> bool" where
  "in_namespace ns h =
     (let suf = ''.'' @ ns @ ''.svc.cluster.local''
      in length suf < length h \<and> drop (length h - length suf) h = suf)"

definition matches_template :: "string \<Rightarrow> string \<Rightarrow> bool" where
  "matches_template ns u =
     (case parse_url u of
        None \<Rightarrow> False
      | Some x \<Rightarrow> scheme x \<noteq> [] \<and> in_namespace ns (hostname x) \<and>
          (case port x of None \<Rightarrow> False | Some n \<Rightarrow> n \<noteq> [] \<and> list_all is_digit n))"

definition matches_template_no_port :: "string \<Rightarrow> string \<Rightarrow> bool" where
  "matches_template_no_port ns u =
     (case parse_url u of
        None \<Rightarrow> False
      | Some x \<Rightarrow> scheme x \<noteq> [] \<and> in_namespace ns (hostname x) \<and> port x = None)"

definition hostname_contains :: "string \<Rightarrow> string \<Rightarrow> bool" where
  "hostname_contains ns u =
     (case parse_url u of None \<Rightarrow> False | Some x \<Rightarrow> sublist ns (hostname x))"

definition colons :: "string \<Rightarrow> nat" where
  "colons u = length (filter (\<lambda>c. c = CHR '':'') u)"

section \<open>Properties\<close>

subsection \<open>Auxiliary facts\<close>

lemmas url_defs =
  NAMESPACE_def API_BASE_URL_def ELASTICSEARCH_URL_def MONGODB_URL_def REDIS_URL_def
  MLFLOW_TRACKING_URI_def NEMO_BASE_URL_def NIM_BASE_URL_def DATASTORE_BASE_URL_def

text \<open>A key and a value that \<open>os.environ\<close> accepts are stored.\<close>

lemma environ_setitem_accepts:
  assumes "CHR 0x00 \<notin> set key" and "CHR 0x00 \<notin> set val"
    and "key \<noteq> []" and "CHR ''='' \<notin> set key"
  shows "environ_setitem key val p = Inr (p\<lparr>environ := (environ p)(key \<mapsto> val)\<rparr>)"
  using assms by (simp add: environ_setitem_def)

text \<open>The check mark is outside ASCII and Latin-1, so of the three encodings only UTF-8
  takes the confirmation.\<close>

lemma encodable_confirmation: "encodable enc confirmation = (enc = UTF8)"
  by (cases enc) (simp_all add: confirmation_def check_mark_def)

lemma stdout_takes_confirmation:
  "stdout_takes p confirmation =
     (case stdout p of
        None \<Rightarrow> True
      | Some st \<Rightarrow> \<not> closed st \<and> (errors st = Replace \<or> encoding st = UTF8))"
  by (simp add: stdout_takes_def encodable_confirmation split: option.splits)

text \<open>
  None of the eight assignments is refused, so the routine reaches its first \<open>print\<close>
  with the eight entries laid over the environment. Whether that \<open>print\<close> raises is
  decided by the stream alone, and when it does not, neither do the five after it.
\<close>

lemma configure_environment_eq:
  "configure_environment p =
     (case stdout p of
        None \<Rightarrow> Inr (configured p)
      | Some st \<Rightarrow>
          if closed st
            then Inl (ValueError_closed_file, p\<lparr>environ := environ p ++ exported\<rparr>)
          else if errors st = Strict \<and> encoding st \<noteq> UTF8
            then Inl (UnicodeEncodeError, p\<lparr>environ := environ p ++ exported\<rparr>)
          else Inr (configured p))"
proof (cases "stdout p")
  case None
  then show ?thesis
    by (simp add: configure_environment_def environ_setitem_def print_def exported_def
        configured_def url_defs)
next
  case (Some st)
  show ?thesis
  proof (cases "closed st")
    case True
    with Some show ?thesis
      by (simp add: configure_environment_def environ_setitem_def print_def exported_def
          url_defs)
  next
    case False
    show ?thesis
    proof (cases "errors st")
      case Replace
      with Some False show ?thesis
        by (simp add: configure_environment_def environ_setitem_def print_def exported_def
            configured_def confirmation_def url_defs)
    next
      case Strict
      with Some False show ?thesis
        by (cases "encoding st")
          (simp_all add: configure_environment_def environ_setitem_def print_def
            exported_def configured_def confirmation_def check_mark_def url_defs)
    qed
  qed
qed

lemma environ_after_configure:
  "environ (state_after (configure_environment p)) = environ p ++ exported"
  by (simp add: configure_environment_eq configured_def split: option.splits)


lemma exported_twice: "(m ++ exported) ++ exported = m ++ exported"
  by (rule ext) (simp add: map_add_def split: option.splits)

lemma dom_exported: "dom exported = set exported_names"
  by (auto simp: exported_def exported_names_def)

text \<open>The recogniser accepts only strings that the template writes.\<close>

lemma split_scheme_append:
  "split_scheme u = Some (s, r) \<Longrightarrow> u = s @ ''://'' @ r"
proof (induction u arbitrary: s)
  case Nil
  then show ?case by simp
next
  case (Cons c cs)
  show ?case
  proof (cases "take 3 (c # cs) = ''://''")
    case True
    with Cons.prems have "s = []" and "r = drop 3 (c # cs)" by simp_all
    moreover have "take 3 (c # cs) @ drop 3 (c # cs) = c # cs"
      by (rule append_take_drop_id)
    then have "''://'' @ drop 3 (c # cs) = c # cs"
      by (simp only: True)
    ultimately show ?thesis by (metis append_Nil)
  next
    case False
    with Cons.prems obtain s' where "split_scheme cs = Some (s', r)" and "s = c # s'"
      by (auto split: option.splits)
    with Cons.IH [of s'] show ?thesis by simp
  qed
qed

lemma in_namespace_append:
  assumes "in_namespace ns h"
  shows "\<exists>host. host \<noteq> [] \<and> h = host @ ''.'' @ ns @ ''.svc.cluster.local''"
proof -
  let ?suf = "''.'' @ ns @ ''.svc.cluster.local''"
  from assms have len: "length ?suf < length h"
    and suf: "drop (length h - length ?suf) h = ?suf"
    by (simp_all add: in_namespace_def Let_def)
  have "h = take (length h - length ?suf) h @ drop (length h - length ?suf) h"
    by simp
  with suf have "h = take (length h - length ?suf) h @ ?suf" by simp
  moreover from len have "take (length h - length ?suf) h \<noteq> []" by auto
  ultimately show ?thesis by blast
qed

lemma matches_template_sound:
  assumes "matches_template ns u"
  shows "\<exists>sch host prt pth.
           u = url_template sch host ns prt pth \<and> sch \<noteq> [] \<and> host \<noteq> [] \<and> prt \<noteq> [] \<and>
           list_all is_digit prt \<and> (pth = [] \<or> hd pth = CHR ''/'')"
proof -
  from assms obtain s r where sp: "split_scheme u = Some (s, r)"
    by (auto simp: matches_template_def parse_url_def split: option.splits)
  define a where "a = takeWhile (\<lambda>c. c \<noteq> CHR ''/'') r"
  define pth where "pth = dropWhile (\<lambda>c. c \<noteq> CHR ''/'') r"
  define h where "h = takeWhile (\<lambda>c. c \<noteq> CHR '':'') a"
  define t where "t = dropWhile (\<lambda>c. c \<noteq> CHR '':'') a"
  from assms sp have s: "s \<noteq> []" and ns: "in_namespace ns h" and t: "t \<noteq> []"
    and prt: "tl t \<noteq> []" "list_all is_digit (tl t)"
    by (auto simp: matches_template_def parse_url_def Let_def a_def h_def t_def
        split: option.splits if_splits)
  from t have "hd t = CHR '':''"
    unfolding t_def using hd_dropWhile [of "\<lambda>c. c \<noteq> CHR '':''" a] by simp
  with t have t_eq: "t = CHR '':'' # tl t" by (cases t) simp_all
  have "a = h @ t" by (simp add: h_def t_def)
  moreover have "r = a @ pth" by (simp add: a_def pth_def)
  moreover from sp have "u = s @ ''://'' @ r" by (rule split_scheme_append)
  moreover from ns obtain host where "host \<noteq> []" "h = host @ ''.'' @ ns @ ''.svc.cluster.local''"
    using in_namespace_append by blast
  ultimately have "u = url_template s host ns (tl t) pth" and "host \<noteq> []"
    using t_eq by (simp_all add: url_template_def)
  moreover have "pth = [] \<or> hd pth = CHR ''/''"
    unfolding pth_def using hd_dropWhile [of "\<lambda>c. c \<noteq> CHR ''/''" r] by auto
  ultimately show ?thesis using s prt by blast
qed

text \<open>Whatever its parts, a string written by the template has two colons; the gateway
  URL has one, so it is no instance of the template.\<close>

lemma colons_url_template: "2 \<le> colons (url_template sch host ns prt pth)"
  by (simp add: colons_def url_template_def)

lemma colons_NEMO_BASE_URL: "colons NEMO_BASE_URL = 1"
  by (simp add: colons_def url_defs)

lemma NEMO_BASE_URL_no_instance: "url_template sch host ns prt pth \<noteq> NEMO_BASE_URL"
  using colons_url_template [of sch host ns prt pth] colons_NEMO_BASE_URL by auto

subsection \<open>The environment after the routine\<close>

text \<open>
  C1. Whatever the process state before, in the state \<open>configure_environment\<close> leaves
  each of the eight variables \<open>API_BASE_URL\<close>, \<open>ELASTICSEARCH_URL\<close>, \<open>MONGODB_URL\<close>,
  \<open>REDIS_URL\<close>, \<open>MLFLOW_TRACKING_URI\<close>, \<open>NEMO_BASE_URL\<close>, \<open>NIM_BASE_URL\<close> and
  \<open>DATASTORE_BASE_URL\<close> is set to the module constant of the same name. This holds of a
  run that returns and of a run that raises while printing.
\<close>

theorem configure_environment_sets_all:
  "environ (state_after (configure_environment p)) ''API_BASE_URL'' = Some API_BASE_URL \<and>
   environ (state_after (configure_environment p)) ''ELASTICSEARCH_URL'' = Some ELASTICSEARCH_URL \<and>
   environ (state_after (configure_environment p)) ''MONGODB_URL'' = Some MONGODB_URL \<and>
   environ (state_after (configure_environment p)) ''REDIS_URL'' = Some REDIS_URL \<and>
   environ (state_after (configure_environment p)) ''MLFLOW_TRACKING_URI'' = Some MLFLOW_TRACKING_URI \<and>
   environ (state_after (configure_environment p)) ''NEMO_BASE_URL'' = Some NEMO_BASE_URL \<and>
   environ (state_after (configure_environment p)) ''NIM_BASE_URL'' = Some NIM_BASE_URL \<and>
   environ (state_after (configure_environment p)) ''DATASTORE_BASE_URL'' = Some DATASTORE_BASE_URL"
  by (simp add: environ_after_configure exported_def)

text \<open>
  C3. The routine is idempotent on the environment: from any state, the environment
  after a second call, made in the state the first one left, is the environment after
  the first.
\<close>

theorem configure_environment_idempotent:
  "environ (state_after (configure_environment (state_after (configure_environment p)))) =
   environ (state_after (configure_environment p))"
  by (simp add: environ_after_configure exported_twice)

text \<open>
  C4. The routine writes the eight names and nothing else: a key that is not one of the
  eight has after the call the entry it had before, or none if it had none.
\<close>

theorem configure_environment_frame:
  assumes "k \<notin> {''API_BASE_URL'', ''ELASTICSEARCH_URL'', ''MONGODB_URL'', ''REDIS_URL'',
             ''MLFLOW_TRACKING_URI'', ''NEMO_BASE_URL'', ''NIM_BASE_URL'',
             ''DATASTORE_BASE_URL''}"
  shows "environ (state_after (configure_environment p)) k = environ p k"
  using assms by (simp add: environ_after_configure exported_def map_add_def)

theorem configure_environment_frame_witness:
  "''HOME'' \<notin> {''API_BASE_URL'', ''ELASTICSEARCH_URL'', ''MONGODB_URL'', ''REDIS_URL'',
             ''MLFLOW_TRACKING_URI'', ''NEMO_BASE_URL'', ''NIM_BASE_URL'',
             ''DATASTORE_BASE_URL''} \<and>
   environ (state_after (configure_environment utf8_process)) ''HOME'' = Some ''/root''"
proof -
  have h: "''HOME'' \<notin> {''API_BASE_URL'', ''ELASTICSEARCH_URL'', ''MONGODB_URL'', ''REDIS_URL'',
             ''MLFLOW_TRACKING_URI'', ''NEMO_BASE_URL'', ''NIM_BASE_URL'',
             ''DATASTORE_BASE_URL''}"
    by simp
  from configure_environment_frame [OF h, of utf8_process]
  show ?thesis using h by (simp add: utf8_process_def)
qed

text \<open>
  C5. \<open>NIM_EXTERNAL_URL\<close> is a constant of the module that the routine does not export:
  the entry of the environment under that name is after the call what it was before, so
  a variable that was unset stays unset.
\<close>

theorem NIM_EXTERNAL_URL_not_exported:
  "environ (state_after (configure_environment p)) ''NIM_EXTERNAL_URL'' =
     environ p ''NIM_EXTERNAL_URL'' \<and>
   (environ p ''NIM_EXTERNAL_URL'' = None \<longrightarrow>
      environ (state_after (configure_environment p)) ''NIM_EXTERNAL_URL'' = None)"
  by (simp add: environ_after_configure exported_def map_add_def)

theorem NIM_EXTERNAL_URL_not_exported_witness:
  "environ \<lparr>environ = Map.empty, stdout = None\<rparr> ''NIM_EXTERNAL_URL'' = None \<and>
   environ (state_after (configure_environment \<lparr>environ = Map.empty, stdout = None\<rparr>))
     ''NIM_EXTERNAL_URL'' = None"
  using NIM_EXTERNAL_URL_not_exported [of "\<lparr>environ = Map.empty, stdout = None\<rparr>"]
  by simp

text \<open>
  C6. The values written do not depend on the state the routine starts from: two runs
  from any two states leave under the eight names the same entries, namely the eight
  constants, which are built from the namespace literal and the literal parts of the
  f-strings alone.
\<close>

theorem configure_environment_deterministic:
  "map (environ (state_after (configure_environment p))) exported_names =
     map (environ (state_after (configure_environment q))) exported_names \<and>
   map (environ (state_after (configure_environment p))) exported_names =
     [Some API_BASE_URL, Some ELASTICSEARCH_URL, Some MONGODB_URL, Some REDIS_URL,
      Some MLFLOW_TRACKING_URI, Some NEMO_BASE_URL, Some NIM_BASE_URL,
      Some DATASTORE_BASE_URL]"
  by (simp add: environ_after_configure exported_def exported_names_def)




text \<open>
  C8. Importing the module configures the environment: the module body calls the
  routine once, so after the import the eight variables hold the eight constants with
  no call by the importer, and where standard output takes the confirmation the import
  returns with the confirmation written one time.
\<close>

theorem module_init_configures:
  "environ (state_after (module_init p)) ''API_BASE_URL'' = Some API_BASE_URL \<and>
   environ (state_after (module_init p)) ''ELASTICSEARCH_URL'' = Some ELASTICSEARCH_URL \<and>
   environ (state_after (module_init p)) ''MONGODB_URL'' = Some MONGODB_URL \<and>
   environ (state_after (module_init p)) ''REDIS_URL'' = Some REDIS_URL \<and>
   environ (state_after (module_init p)) ''MLFLOW_TRACKING_URI'' = Some MLFLOW_TRACKING_URI \<and>
   environ (state_after (module_init p)) ''NEMO_BASE_URL'' = Some NEMO_BASE_URL \<and>
   environ (state_after (module_init p)) ''NIM_BASE_URL'' = Some NIM_BASE_URL \<and>
   environ (state_after (module_init p)) ''DATASTORE_BASE_URL'' = Some DATASTORE_BASE_URL \<and>
   (stdout_takes p confirmation \<longrightarrow>
      module_init p = Inr (configured p) \<and>
      stdout (configured p) =
        map_option (\<lambda>st. st\<lparr>written := written st @ confirmation\<rparr>) (stdout p))"
  by (auto simp: module_init_def environ_after_configure exported_def
      configure_environment_eq stdout_takes_confirmation configured_def
      split: option.splits)

theorem module_init_configures_witness:
  "stdout_takes utf8_process confirmation \<and>
   module_init utf8_process = Inr (configured utf8_process) \<and>
   stdout (configured utf8_process) =
     Some \<lparr>encoding = UTF8, errors = Strict, closed = False, written = confirmation\<rparr>"
proof -
  have h: "stdout_takes utf8_process confirmation"
    by (simp add: stdout_takes_def utf8_process_def)
  from module_init_configures [of utf8_process] h
  show ?thesis by (simp add: utf8_process_def)
qed

text \<open>
  C10. \<open>NEMO_BASE_URL\<close> and \<open>NIM_BASE_URL\<close> are the same string,
  \<open>http://nemo-gateway.hacohen-flywheel.svc.cluster.local\<close>, which has no port, and after
  the routine the two environment variables of those names both hold it.
\<close>

theorem NEMO_NIM_same_endpoint:
  "NEMO_BASE_URL = NIM_BASE_URL \<and>
   NEMO_BASE_URL = ''http://nemo-gateway.hacohen-flywheel.svc.cluster.local'' \<and>
   map_option port (parse_url NEMO_BASE_URL) = Some None \<and>
   environ (state_after (configure_environment p)) ''NEMO_BASE_URL'' =
     Some ''http://nemo-gateway.hacohen-flywheel.svc.cluster.local'' \<and>
   environ (state_after (configure_environment p)) ''NIM_BASE_URL'' =
     Some ''http://nemo-gateway.hacohen-flywheel.svc.cluster.local''"
  by (simp add: environ_after_configure exported_def url_defs parse_url_def)

subsection \<open>The form of the constants\<close>

text \<open>
  C2. With the namespace \<open>hacohen-flywheel\<close>, six of the eight exported constants
  (\<open>API_BASE_URL\<close>, \<open>ELASTICSEARCH_URL\<close>, \<open>MONGODB_URL\<close>, \<open>REDIS_URL\<close>,
  \<open>MLFLOW_TRACKING_URI\<close>, \<open>DATASTORE_BASE_URL\<close>) are instances of the template
  \<^verbatim>\<open><scheme>://<service-host>.<namespace>.svc.cluster.local:<port>[/<path>]\<close>, with the
  parts given below; \<open>NEMO_BASE_URL\<close> and \<open>NIM_BASE_URL\<close> have a scheme and a service host
  qualified by the namespace and \<open>.svc.cluster.local\<close>, and neither a port nor a path.
\<close>

theorem url_constants_follow_template:
  "NAMESPACE = ''hacohen-flywheel'' \<and>
   matches_template NAMESPACE API_BASE_URL \<and>
   API_BASE_URL = url_template ''http'' ''df-api-service'' NAMESPACE ''8000'' [] \<and>
   matches_template NAMESPACE ELASTICSEARCH_URL \<and>
   ELASTICSEARCH_URL = url_template ''http'' ''elasticsearch-master'' NAMESPACE ''9200'' [] \<and>
   matches_template NAMESPACE MONGODB_URL \<and>
   MONGODB_URL = url_template ''mongodb'' ''flywheel-infra-mongodb'' NAMESPACE ''27017'' [] \<and>
   matches_template NAMESPACE REDIS_URL \<and>
   REDIS_URL = url_template ''redis'' ''flywheel-infra-redis-master'' NAMESPACE ''6379'' ''/0'' \<and>
   matches_template NAMESPACE MLFLOW_TRACKING_URI \<and>
   MLFLOW_TRACKING_URI = url_template ''http'' ''df-mlflow-service'' NAMESPACE ''5000'' [] \<and>
   matches_template NAMESPACE DATASTORE_BASE_URL \<and>
   DATASTORE_BASE_URL = url_template ''http'' ''nemodatastore-sample'' NAMESPACE ''8000'' [] \<and>
   matches_template_no_port NAMESPACE NEMO_BASE_URL \<and>
   NEMO_BASE_URL = url_template_no_port ''http'' ''nemo-gateway'' NAMESPACE [] \<and>
   matches_template_no_port NAMESPACE NIM_BASE_URL \<and>
   NIM_BASE_URL = url_template_no_port ''http'' ''nemo-gateway'' NAMESPACE []"
  by (intro conjI)
    (simp_all add: url_defs url_template_def url_template_no_port_def matches_template_def
      matches_template_no_port_def parse_url_def in_namespace_def is_digit_def)

text \<open>
  The documented template asks a port of all eight values. The gateway
  URL has none: the recogniser rejects it, and by \<open>NEMO_BASE_URL_no_instance\<close> no choice
  of parts makes the template write it.
\<close>

theorem NEMO_BASE_URL_off_template:
  "\<not> matches_template NAMESPACE NEMO_BASE_URL"
  by (simp add: url_defs matches_template_def parse_url_def)

text \<open>
  C9. The namespace \<open>hacohen-flywheel\<close> occurs in the hostname of every URL constant of
  the module: the eight exported ones and \<open>NIM_EXTERNAL_URL\<close>.
\<close>

theorem namespace_in_every_hostname:
  "NAMESPACE = ''hacohen-flywheel'' \<and>
   hostname_contains NAMESPACE API_BASE_URL \<and>
   hostname_contains NAMESPACE ELASTICSEARCH_URL \<and>
   hostname_contains NAMESPACE MONGODB_URL \<and>
   hostname_contains NAMESPACE REDIS_URL \<and>
   hostname_contains NAMESPACE MLFLOW_TRACKING_URI \<and>
   hostname_contains NAMESPACE NEMO_BASE_URL \<and>
   hostname_contains NAMESPACE NIM_BASE_URL \<and>
   hostname_contains NAMESPACE DATASTORE_BASE_URL \<and>
   hostname_contains NAMESPACE NIM_EXTERNAL_URL"
  by (intro conjI; code_simp)

end
